theory Spec2Isabelle
  imports Main "HOL-Library.Sublist"
begin

section \<open>Python values used by \<^verbatim>\<open>file_manager_agent/agent.py\<close>\<close>

text \<open>
  A Python \<^verbatim>\<open>str\<close> is modelled as a \<^typ>\<open>string\<close> holding its UTF-8 bytes. UTF-8 is
  injective and commutes with concatenation, so equality, emptiness, \<^verbatim>\<open>+\<close>, f-string
  interpolation of a \<^verbatim>\<open>str\<close>, \<^verbatim>\<open>join\<close> and \<^verbatim>\<open>in\<close> mean on the bytes what they mean on the
  code points. The three non-ASCII literals of the source are written out byte by byte.
\<close>

text \<open>\<^verbatim>\<open>APP_NAME = "file_manager"\<close>\<close>

definition APP_NAME :: string where
  "APP_NAME = ''file_manager''"

text \<open>The literal of \<^verbatim>\<open>user_prompt\<close> (source line 81), 11 code points, 33 bytes.\<close>

definition user_prompt :: string where
  "user_prompt =
     [CHR 0xE8, CHR 0xAB, CHR 0x8B, CHR 0xE5, CHR 0x88, CHR 0x97, CHR 0xE5, CHR 0x87, CHR 0xBA,
      CHR 0xE6, CHR 0x89, CHR 0x80, CHR 0xE6, CHR 0x9C, CHR 0x89, CHR 0xE5, CHR 0xB7, CHR 0xB2,
      CHR 0xE4, CHR 0xB8, CHR 0x8A, CHR 0xE5, CHR 0x82, CHR 0xB3, CHR 0xE7, CHR 0x9A, CHR 0x84,
      CHR 0xE6, CHR 0xAA, CHR 0x94, CHR 0xE6, CHR 0xA1, CHR 0x88]"

text \<open>The literal returned on source line 103 when no text was collected, 12 code points.\<close>

definition no_files_text :: string where
  "no_files_text =
     [CHR 0xE7, CHR 0x9B, CHR 0xAE, CHR 0xE5, CHR 0x89, CHR 0x8D, CHR 0xE6, CHR 0xB2, CHR 0x92,
      CHR 0xE6, CHR 0x9C, CHR 0x89, CHR 0xE6, CHR 0x89, CHR 0xBE, CHR 0xE5, CHR 0x88, CHR 0xB0,
      CHR 0xE4, CHR 0xBB, CHR 0xBB, CHR 0xE4, CHR 0xBD, CHR 0x95, CHR 0xE6, CHR 0xAA, CHR 0x94,
      CHR 0xE6, CHR 0xA1, CHR 0x88, CHR 0xE5, CHR 0x94, CHR 0xB7, CHR 0xEF, CHR 0xBC, CHR 0x81]"

text \<open>
  The literal part of the f-string on source line 109. Its first 36 bytes are the twelve
  characters the specification quotes; the last three are the full-width colon U+FF1A that
  the source puts before the interpolated \<^verbatim>\<open>str(e)\<close>.
\<close>

definition problem_text :: string where
  "problem_text =
     [CHR 0xE6, CHR 0x9F, CHR 0xA5, CHR 0xE8, CHR 0xA9, CHR 0xA2, CHR 0xE6, CHR 0xAA, CHR 0x94,
      CHR 0xE6, CHR 0xA1, CHR 0x88, CHR 0xE6, CHR 0x99, CHR 0x82, CHR 0xE7, CHR 0x99, CHR 0xBC,
      CHR 0xE7, CHR 0x94, CHR 0x9F, CHR 0xE4, CHR 0xBA, CHR 0x86, CHR 0xE4, CHR 0xB8, CHR 0x80,
      CHR 0xE9, CHR 0xBB, CHR 0x9E, CHR 0xE5, CHR 0x95, CHR 0x8F, CHR 0xE9, CHR 0xA1, CHR 0x8C]"

definition error_text :: string where
  "error_text = problem_text @ [CHR 0xEF, CHR 0xBC, CHR 0x9A]"

text \<open>\<^verbatim>\<open>sep.join(xs)\<close>: the elements of \<open>xs\<close> with \<open>sep\<close> between neighbours.\<close>

fun join :: "string \<Rightarrow> string list \<Rightarrow> string" where
  "join sep [] = []"
| "join sep [x] = x"
| "join sep (x # y # ys) = x @ sep @ join sep (y # ys)"

text \<open>
  Whatever a \<^verbatim>\<open>raise\<close> can deliver. The clause \<^verbatim>\<open>except Exception as e\<close> matches the instances
  of class \<^verbatim>\<open>Exception\<close> only; \<^verbatim>\<open>asyncio.CancelledError\<close>, \<^verbatim>\<open>KeyboardInterrupt\<close>,
  \<^verbatim>\<open>SystemExit\<close> and \<^verbatim>\<open>GeneratorExit\<close> derive from \<^verbatim>\<open>BaseException\<close> beside it. The
  string stands for the object raised, its class and arguments. What \<^verbatim>\<open>str(e)\<close> gives is
  up to the \<^verbatim>\<open>__str__\<close> of its class, which is code of its own and may raise: it is part of
  the record \<open>python\<close> below.
\<close>

datatype exn =
    Exception string
  | Non_Exception string

section \<open>The collaborators: tool and agent runtime\<close>

type_synonym cache = "string \<rightharpoonup> string"

record agent =
  store_name :: string
  store_name_cache :: cache

text \<open>
  The tool \<^verbatim>\<open>list_files_tool\<close> of module \<^verbatim>\<open>.tools\<close> is imported by the source and is not part
  of it, so it is a parameter of the model. It is called with the store name and the cache
  dictionary and answers with file records or raises. Python hands it the dictionary itself,
  not a copy, so a \<^typ>\<open>cache\<close> comes back beside the result: what the dictionary holds when
  the tool is done.
\<close>

record file_record =
  name :: string
  uploaded_at :: string

type_synonym tool_result = "exn + file_record list"

type_synonym tool = "string \<Rightarrow> cache \<Rightarrow> tool_result \<times> cache"

text \<open>
  Modelled from the spec: the body of \<^verbatim>\<open>list_files_tool\<close> is missing. The specification
  gives its contract as (store identifier, cache) to a sequence of file records, or failure,
  with the cache passed through unmodified: a function \<open>f\<close> that reads the cache and
  answers. \<open>spec_tool f\<close> is the tool that behaves so.
\<close>

definition spec_tool :: "(string \<Rightarrow> cache \<Rightarrow> tool_result) \<Rightarrow> tool" where
  "spec_tool f = (\<lambda>store c. (f store c, c))"

text \<open>
  \<^verbatim>\<open>types.Part\<close>: its \<^verbatim>\<open>text\<close> is \<^verbatim>\<open>None\<close> or a \<^verbatim>\<open>str\<close> (a function call or a function
  response is a part whose \<^verbatim>\<open>text\<close> is \<^verbatim>\<open>None\<close>). The source also guards with \<^verbatim>\<open>hasattr\<close>, so
  an object with no such attribute is a value of the model too.
\<close>

datatype part =
    Part "string option"
  | No_text_attribute

record content =
  role :: "string option"
  parts :: "part list option"

record event =
  content :: "content option"

record session =
  id' :: string

text \<open>
  What the asynchronous iterator of \<^verbatim>\<open>runner.run_async\<close> does next: it ends, yields an
  event, raises, or (the model deciding to use its one tool) calls the closure
  \<^verbatim>\<open>list_files\<close> of the agent and goes on from the result. A value of this type is a
  finite run of the iterator; an iterator that never ends is outside it.
\<close>

datatype stream =
    Stop
  | Yield event stream
  | Raise exn
  | Call_list_files "tool_result \<Rightarrow> stream"

record runtime =
  create_session :: "string \<Rightarrow> string \<Rightarrow> string \<Rightarrow> exn + session"
  run_async :: "string \<Rightarrow> string \<Rightarrow> content \<Rightarrow> stream"

text \<open>The calls that reach the runtime, and the lines that reach the console.\<close>

datatype request =
    Create_session string string string
  | Run_async string string content

datatype console =
    Print string
  | Print_exc exn

text \<open>
  The four steps of the handler that run code outside the source, each as it behaves in a
  run: \<^verbatim>\<open>f"{e}"\<close>, which is \<^verbatim>\<open>format(e, "")\<close> and gives a string or raises; \<^verbatim>\<open>print\<close> and
  \<^verbatim>\<open>traceback.print_exc\<close>, which write to the standard streams or raise; and \<^verbatim>\<open>str(e)\<close>.
  The source guards none of them.
\<close>

record python =
  format :: "exn \<Rightarrow> exn + string"
  print :: "string \<Rightarrow> exn option"
  print_exc :: "exn \<Rightarrow> exn option"
  str :: "exn \<Rightarrow> exn + string"

section \<open>\<^verbatim>\<open>FileManagerAgent\<close>\<close>

text \<open>
  The closure of \<^verbatim>\<open>__init__\<close> (source lines 37 to 39):
  \<^verbatim>\<open>return await list_files_tool(self.store_name, self.store_name_cache)\<close>.
\<close>

definition list_files :: "tool \<Rightarrow> agent \<Rightarrow> tool_result \<times> agent" where
  "list_files list_files_tool self =
     (case list_files_tool (store_name self) (store_name_cache self) of
        (r, c) \<Rightarrow> (r, self\<lparr>store_name_cache := c\<rparr>))"

text \<open>
  Source lines 95 to 97, the inner loop:
  \<^verbatim>\<open>if hasattr(part, 'text') and part.text: response_texts.append(part.text)\<close>.
  \<^verbatim>\<open>None\<close> and the empty string are both false.
\<close>

fun for_parts :: "part list \<Rightarrow> string list \<Rightarrow> string list" where
  "for_parts [] response_texts = response_texts"
| "for_parts (Part (Some t) # ps) response_texts =
     for_parts ps (if t \<noteq> [] then response_texts @ [t] else response_texts)"
| "for_parts (Part None # ps) response_texts = for_parts ps response_texts"
| "for_parts (No_text_attribute # ps) response_texts = for_parts ps response_texts"

text \<open>
  Source line 94, the body of the outer loop: \<^verbatim>\<open>if event.content and event.content.parts:\<close>.
  A \<^verbatim>\<open>Content\<close> object is true, \<^verbatim>\<open>None\<close> is false; a list is true when it is not empty.
\<close>

definition on_event :: "event \<Rightarrow> string list \<Rightarrow> string list" where
  "on_event ev response_texts =
     (case content ev of
        None \<Rightarrow> response_texts
      | Some c \<Rightarrow>
          (case parts c of
             None \<Rightarrow> response_texts
           | Some ps \<Rightarrow> if ps \<noteq> [] then for_parts ps response_texts else response_texts))"

text \<open>
  Source lines 89 to 97, \<^verbatim>\<open>async for event in self.runner.run_async(...)\<close>: the loop ends
  with the collected texts when the iterator ends and with the exception when it raises.
\<close>

primrec async_for :: "stream \<Rightarrow> tool \<Rightarrow> agent \<Rightarrow> string list \<Rightarrow> (exn + string list) \<times> agent" where
  "async_for Stop list_files_tool self response_texts = (Inr response_texts, self)"
| "async_for (Yield ev rest) list_files_tool self response_texts =
     async_for rest list_files_tool self (on_event ev response_texts)"
| "async_for (Raise e) list_files_tool self response_texts = (Inl e, self)"
| "async_for (Call_list_files k) list_files_tool self response_texts =
     (case list_files list_files_tool self of
        (r, self') \<Rightarrow> async_for (k r) list_files_tool self' response_texts)"

text \<open>
  Source lines 82 to 85:
  \<^verbatim>\<open>content = types.Content(role="user", parts=[types.Part(text=user_prompt)])\<close>,
  passed as \<^verbatim>\<open>new_message\<close>.
\<close>

definition new_message :: content where
  "new_message = \<lparr>role = Some ''user'', parts = Some [Part (Some user_prompt)]\<rparr>"

text \<open>
  Source lines 72 to 103, the body of \<^verbatim>\<open>try\<close>: the value returned or the exception raised,
  the agent afterwards and the requests made on the way.
\<close>

definition try_body :: "tool \<Rightarrow> runtime \<Rightarrow> agent \<Rightarrow> (exn + string) \<times> agent \<times> request list" where
  "try_body list_files_tool rt self =
     (let user_id = ''user_'' @ store_name self;
          session_id = ''list_files_'' @ store_name self
      in case create_session rt APP_NAME user_id session_id of
           Inl e \<Rightarrow> (Inl e, self, [Create_session APP_NAME user_id session_id])
         | Inr session \<Rightarrow>
             (let reqs = [Create_session APP_NAME user_id session_id,
                          Run_async user_id (id' session) new_message]
              in case async_for (run_async rt user_id (id' session) new_message)
                        list_files_tool self [] of
                   (Inl e, self') \<Rightarrow> (Inl e, self', reqs)
                 | (Inr response_texts, self') \<Rightarrow>
                     (Inr (if response_texts \<noteq> [] then join [CHR 0x0A] response_texts
                           else no_files_text), self', reqs)))"

text \<open>What a call of \<^verbatim>\<open>handle_list_files\<close> leaves behind.\<close>

datatype outcome =
    Returned string
  | Propagated exn

record run =
  outcome :: outcome
  agent_after :: agent
  requests :: "request list"
  printed :: "console list"

text \<open>
  Source lines 106 to 109, the handler:
  \<^verbatim>\<open>print(f"Error in FileManagerAgent: {e}")\<close>, \<^verbatim>\<open>traceback.print_exc()\<close> and
  \<^verbatim>\<open>return f"...{str(e)}"\<close>. A step that raises ends the handler with that exception; what
  was printed before stays printed.
\<close>

definition except_block :: "python \<Rightarrow> exn \<Rightarrow> (exn + string) \<times> console list" where
  "except_block py e =
     (case format py e of
        Inl e' \<Rightarrow> (Inl e', [])
      | Inr shown \<Rightarrow>
          (case print py (''Error in FileManagerAgent: '' @ shown) of
             Some e' \<Rightarrow> (Inl e', [])
           | None \<Rightarrow>
               (case print_exc py e of
                  Some e' \<Rightarrow> (Inl e', [Print (''Error in FileManagerAgent: '' @ shown)])
                | None \<Rightarrow>
                    (case str py e of
                       Inl e' \<Rightarrow>
                         (Inl e', [Print (''Error in FileManagerAgent: '' @ shown), Print_exc e])
                     | Inr msg \<Rightarrow>
                         (Inr (error_text @ msg),
                          [Print (''Error in FileManagerAgent: '' @ shown), Print_exc e])))))"

text \<open>
  Source lines 71 and 105: \<^verbatim>\<open>try: ... except Exception as e:\<close>. What is no instance of
  \<^verbatim>\<open>Exception\<close> passes the clause; what the handler raises leaves the call.
\<close>

definition handle_list_files :: "python \<Rightarrow> tool \<Rightarrow> runtime \<Rightarrow> agent \<Rightarrow> run" where
  "handle_list_files py list_files_tool rt self =
     (case try_body list_files_tool rt self of
        (Inr s, self', reqs) \<Rightarrow>
          \<lparr>outcome = Returned s, agent_after = self', requests = reqs, printed = []\<rparr>
      | (Inl (Exception x), self', reqs) \<Rightarrow>
          (case except_block py (Exception x) of
             (Inr s, out) \<Rightarrow>
               \<lparr>outcome = Returned s, agent_after = self', requests = reqs, printed = out\<rparr>
           | (Inl e', out) \<Rightarrow>
               \<lparr>outcome = Propagated e', agent_after = self', requests = reqs, printed = out\<rparr>)
      | (Inl (Non_Exception x), self', reqs) \<Rightarrow>
          \<lparr>outcome = Propagated (Non_Exception x), agent_after = self', requests = reqs,
           printed = []\<rparr>)"

section \<open>What a run shows\<close>

text \<open>
  The text fragments of an event in the words of the specification: the texts of its parts
  that are not empty, in the order of the parts; none when the event has no content or the
  content has no parts.
\<close>

definition text_fragments :: "event \<Rightarrow> string list" where
  "text_fragments ev =
     (case content ev of
        None \<Rightarrow> []
      | Some c \<Rightarrow> (case parts c of None \<Rightarrow> [] | Some ps \<Rightarrow> [t. Part (Some t) \<leftarrow> ps, t \<noteq> []]))"

text \<open>The events an iterator yields to this agent, and what it raises, if it raises.\<close>

primrec yielded :: "stream \<Rightarrow> tool \<Rightarrow> agent \<Rightarrow> event list" where
  "yielded Stop list_files_tool self = []"
| "yielded (Yield ev rest) list_files_tool self = ev # yielded rest list_files_tool self"
| "yielded (Raise e) list_files_tool self = []"
| "yielded (Call_list_files k) list_files_tool self =
     (case list_files list_files_tool self of (r, self') \<Rightarrow> yielded (k r) list_files_tool self')"

primrec raised :: "stream \<Rightarrow> tool \<Rightarrow> agent \<Rightarrow> exn option" where
  "raised Stop list_files_tool self = None"
| "raised (Yield ev rest) list_files_tool self = raised rest list_files_tool self"
| "raised (Raise e) list_files_tool self = Some e"
| "raised (Call_list_files k) list_files_tool self =
     (case list_files list_files_tool self of (r, self') \<Rightarrow> raised (k r) list_files_tool self')"

text \<open>
  The answer of the runtime to the one \<^verbatim>\<open>create_session\<close> request of a call, and the
  iterator it hands out for the one \<^verbatim>\<open>run_async\<close> request.
\<close>

definition created :: "runtime \<Rightarrow> agent \<Rightarrow> exn + session" where
  "created rt self =
     create_session rt APP_NAME (''user_'' @ store_name self) (''list_files_'' @ store_name self)"

definition streamed :: "runtime \<Rightarrow> agent \<Rightarrow> session \<Rightarrow> stream" where
  "streamed rt self session =
     run_async rt (''user_'' @ store_name self) (id' session) new_message"

text \<open>
  The event sequence of a call of \<^verbatim>\<open>handle_list_files\<close>, and the exception raised during
  session creation or during the streaming run.
\<close>

definition events_in_run :: "tool \<Rightarrow> runtime \<Rightarrow> agent \<Rightarrow> event list" where
  "events_in_run list_files_tool rt self =
     (case created rt self of
        Inl e \<Rightarrow> []
      | Inr session \<Rightarrow> yielded (streamed rt self session) list_files_tool self)"

definition raised_in_run :: "tool \<Rightarrow> runtime \<Rightarrow> agent \<Rightarrow> exn option" where
  "raised_in_run list_files_tool rt self =
     (case created rt self of
        Inl e \<Rightarrow> Some e
      | Inr session \<Rightarrow> raised (streamed rt self session) list_files_tool self)"

text \<open>
  The texts the events of a call put into the accumulator \<^verbatim>\<open>response_texts\<close>, up to the end of
  the stream or to the exception.
\<close>

definition collected :: "tool \<Rightarrow> runtime \<Rightarrow> agent \<Rightarrow> string list" where
  "collected list_files_tool rt self =
     concat (map text_fragments (events_in_run list_files_tool rt self))"

section \<open>Concrete runs\<close>

text \<open>
  The scenario of the specification: store \<^verbatim>\<open>docs\<close>, cache \<^verbatim>\<open>{"docs": "store_123"}\<close>, a tool
  that returns the one record \<^verbatim>\<open>report.pdf\<close>.
\<close>

definition docs_agent :: agent where
  "docs_agent = \<lparr>store_name = ''docs'', store_name_cache = [''docs'' \<mapsto> ''store_123'']\<rparr>"

definition report_tool :: tool where
  "report_tool =
     spec_tool (\<lambda>store c. Inr [\<lparr>name = ''report.pdf'', uploaded_at = ''2024-01-01''\<rparr>])"

text \<open>An event of the model whose parts carry the given texts.\<close>

definition text_event :: "string list \<Rightarrow> event" where
  "text_event ts =
     \<lparr>content = Some \<lparr>role = Some ''model'', parts = Some (map (\<lambda>t. Part (Some t)) ts)\<rparr>\<rparr>"

text \<open>
  A runtime that creates the session it is asked for and then plays a given iterator, and a
  runtime whose session creation raises.
\<close>

definition playing :: "stream \<Rightarrow> runtime" where
  "playing s =
     \<lparr>create_session = (\<lambda>app user sid. Inr \<lparr>id' = sid\<rparr>), run_async = (\<lambda>user sid msg. s)\<rparr>"

definition refusing :: "exn \<Rightarrow> runtime" where
  "refusing e =
     \<lparr>create_session = (\<lambda>app user sid. Inl e), run_async = (\<lambda>user sid msg. Stop)\<rparr>"

text \<open>
  An interpreter in which the handler's steps work: the string of an exception is its
  message, as for the built-in classes, and the prints succeed. And one in which the raised
  object has a \<^verbatim>\<open>__str__\<close> that raises \<^verbatim>\<open>RuntimeError\<close>.
\<close>

definition plain_python :: python where
  "plain_python =
     \<lparr>format = (\<lambda>e. case e of Exception x \<Rightarrow> Inr x | Non_Exception x \<Rightarrow> Inr x),
      print = (\<lambda>line. None),
      print_exc = (\<lambda>e. None),
      str = (\<lambda>e. case e of Exception x \<Rightarrow> Inr x | Non_Exception x \<Rightarrow> Inr x)\<rparr>"

definition broken_str_python :: python where
  "broken_str_python =
     \<lparr>format = (\<lambda>e. Inl (Exception ''RuntimeError'')),
      print = (\<lambda>line. None),
      print_exc = (\<lambda>e. None),
      str = (\<lambda>e. Inl (Exception ''RuntimeError''))\<rparr>"

text \<open>
  An iterator of a run in which the model calls the tool and then says nothing: the event of
  the function call, the call of \<^verbatim>\<open>list_files\<close>, the event of the function response. Their
  parts have no text.
\<close>

definition silent_after_tool :: stream where
  "silent_after_tool =
     Yield \<lparr>content = Some \<lparr>role = Some ''model'', parts = Some [Part None]\<rparr>\<rparr>
       (Call_list_files (\<lambda>r.
          Yield \<lparr>content = Some \<lparr>role = Some ''user'', parts = Some [Part None]\<rparr>\<rparr> Stop))"

section \<open>The loop and the event sequence\<close>

lemma for_parts_append:
  "for_parts ps acc = acc @ [t. Part (Some t) \<leftarrow> ps, t \<noteq> []]"
  by (induction ps acc rule: for_parts.induct) simp_all

lemma on_event_append: "on_event ev acc = acc @ text_fragments ev"
  by (simp add: on_event_def text_fragments_def for_parts_append split: option.splits)

lemma async_for_fst:
  "fst (async_for s tool self acc) =
     (case raised s tool self of
        None \<Rightarrow> Inr (acc @ concat (map text_fragments (yielded s tool self)))
      | Some e \<Rightarrow> Inl e)"
proof (induction s arbitrary: self acc)
  case Stop
  show ?case by simp
next
  case (Yield ev rest)
  then show ?case by (simp add: on_event_append split: option.splits)
next
  case (Raise e)
  show ?case by simp
next
  case (Call_list_files k)
  obtain r self' where call: "list_files tool self = (r, self')"
    by (cases "list_files tool self")
  have "k r \<in> range k" by simp
  from Call_list_files [OF this] call show ?case by (simp split: option.splits)
qed

lemma async_for_snd_spec_tool: "snd (async_for s (spec_tool f) self acc) = self"
proof (induction s arbitrary: acc)
  case (Call_list_files k)
  have "k (f (store_name self) (store_name_cache self)) \<in> range k" by simp
  from Call_list_files [OF this] show ?case
    by (simp add: list_files_def spec_tool_def)
qed simp_all

lemma try_body_created:
  "try_body tool rt self =
     (case created rt self of
        Inl e \<Rightarrow>
          (Inl e, self,
           [Create_session APP_NAME (''user_'' @ store_name self)
              (''list_files_'' @ store_name self)])
      | Inr session \<Rightarrow>
          (case async_for (streamed rt self session) tool self [] of
             (Inl e, self') \<Rightarrow>
               (Inl e, self',
                [Create_session APP_NAME (''user_'' @ store_name self)
                   (''list_files_'' @ store_name self),
                 Run_async (''user_'' @ store_name self) (id' session) new_message])
           | (Inr response_texts, self') \<Rightarrow>
               (Inr (if response_texts \<noteq> [] then join [CHR 0x0A] response_texts
                     else no_files_text), self',
                [Create_session APP_NAME (''user_'' @ store_name self)
                   (''list_files_'' @ store_name self),
                 Run_async (''user_'' @ store_name self) (id' session) new_message])))"
  unfolding try_body_def created_def streamed_def Let_def ..

lemma try_body_fst:
  "fst (try_body tool rt self) =
     (case raised_in_run tool rt self of
        None \<Rightarrow>
          Inr (if collected tool rt self \<noteq> [] then join [CHR 0x0A] (collected tool rt self)
               else no_files_text)
      | Some e \<Rightarrow> Inl e)"
proof (cases "created rt self")
  case (Inl e)
  then show ?thesis
    by (simp add: try_body_created raised_in_run_def)
next
  case (Inr session)
  obtain r self' where loop: "async_for (streamed rt self session) tool self [] = (r, self')"
    by (cases "async_for (streamed rt self session) tool self []")
  from async_for_fst [of "streamed rt self session" tool self "[]"] loop
  have r: "r = (case raised (streamed rt self session) tool self of
        None \<Rightarrow> Inr (concat (map text_fragments (yielded (streamed rt self session) tool self)))
      | Some e \<Rightarrow> Inl e)" by (simp split: option.splits)
  show ?thesis
  proof (cases "raised (streamed rt self session) tool self")
    case None
    with Inr loop r show ?thesis
      by (simp add: try_body_created raised_in_run_def events_in_run_def collected_def)
  next
    case (Some e)
    with Inr loop r show ?thesis
      by (simp add: try_body_created raised_in_run_def events_in_run_def collected_def)
  qed
qed

lemma except_block_completes:
  assumes "format py e = Inr shown"
    and "print py (''Error in FileManagerAgent: '' @ shown) = None"
    and "print_exc py e = None"
    and "str py e = Inr msg"
  shows "except_block py e =
           (Inr (error_text @ msg), [Print (''Error in FileManagerAgent: '' @ shown), Print_exc e])"
  using assms by (simp add: except_block_def)

lemma except_block_returns_iff:
  "fst (except_block py e) = Inr s \<longleftrightarrow>
     (\<exists>shown msg. format py e = Inr shown \<and>
        print py (''Error in FileManagerAgent: '' @ shown) = None \<and>
        print_exc py e = None \<and> str py e = Inr msg \<and> s = error_text @ msg)"
  by (auto simp add: except_block_def split: sum.splits option.splits)

lemma except_block_raises_iff:
  "fst (except_block py e) = Inl e' \<longleftrightarrow>
     format py e = Inl e' \<or>
     (\<exists>shown. format py e = Inr shown \<and>
        (print py (''Error in FileManagerAgent: '' @ shown) = Some e' \<or>
         print py (''Error in FileManagerAgent: '' @ shown) = None \<and>
         (print_exc py e = Some e' \<or> print_exc py e = None \<and> str py e = Inl e')))"
  by (auto simp add: except_block_def split: sum.splits option.splits)

lemma outcome_handle_list_files:
  "outcome (handle_list_files py tool rt self) =
     (case fst (try_body tool rt self) of
        Inr s \<Rightarrow> Returned s
      | Inl (Exception x) \<Rightarrow>
          (case fst (except_block py (Exception x)) of
             Inr s \<Rightarrow> Returned s
           | Inl e' \<Rightarrow> Propagated e')
      | Inl (Non_Exception x) \<Rightarrow> Propagated (Non_Exception x))"
  by (cases "try_body tool rt self"; cases "except_block py (Exception x)")
    (simp add: handle_list_files_def split: sum.splits exn.splits prod.splits)

lemma agent_after_handle_list_files:
  "agent_after (handle_list_files py tool rt self) = fst (snd (try_body tool rt self))"
  by (cases "try_body tool rt self")
    (simp add: handle_list_files_def split: sum.splits exn.splits prod.splits)

lemma requests_handle_list_files:
  "requests (handle_list_files py tool rt self) = snd (snd (try_body tool rt self))"
  by (cases "try_body tool rt self")
    (simp add: handle_list_files_def split: sum.splits exn.splits prod.splits)

lemma printed_handle_list_files:
  "printed (handle_list_files py tool rt self) =
     (case fst (try_body tool rt self) of
        Inl (Exception x) \<Rightarrow> snd (except_block py (Exception x))
      | Inl (Non_Exception x) \<Rightarrow> []
      | Inr s \<Rightarrow> [])"
  by (cases "try_body tool rt self")
    (simp add: handle_list_files_def split: sum.splits exn.splits prod.splits)

lemma try_body_snd:
  "snd (snd (try_body tool rt self)) =
     Create_session APP_NAME (''user_'' @ store_name self) (''list_files_'' @ store_name self) #
     (case created rt self of
        Inl e \<Rightarrow> []
      | Inr session \<Rightarrow> [Run_async (''user_'' @ store_name self) (id' session) new_message])"
  by (simp add: try_body_created split: sum.splits prod.splits)

lemma try_body_agent_spec_tool: "fst (snd (try_body (spec_tool f) rt self)) = self"
proof (cases "created rt self")
  case (Inl e)
  then show ?thesis by (simp add: try_body_created)
next
  case (Inr session)
  obtain r self' where loop:
    "async_for (streamed rt self session) (spec_tool f) self [] = (r, self')"
    by (cases "async_for (streamed rt self session) (spec_tool f) self []")
  from async_for_snd_spec_tool [of "streamed rt self session" f self "[]"] loop
  have "self' = self" by simp
  with Inr loop show ?thesis by (cases r) (simp_all add: try_body_created)
qed

text \<open>
  With any tool at all, the cache changes during a call by the calls of the tool only:
  whatever every call of the tool preserves, \<^verbatim>\<open>handle_list_files\<close> preserves.
\<close>

lemma async_for_cache_invariant:
  assumes "\<And>store c. P c \<Longrightarrow> P (snd (tool store c))"
    and "P (store_name_cache self)"
  shows "P (store_name_cache (snd (async_for s tool self acc)))"
  using assms(2)
proof (induction s arbitrary: self acc)
  case (Call_list_files k)
  obtain r c where call: "tool (store_name self) (store_name_cache self) = (r, c)"
    by (cases "tool (store_name self) (store_name_cache self)")
  from assms(1) [OF Call_list_files.prems, of "store_name self"] call have "P c" by simp
  moreover have "k r \<in> range k" by simp
  ultimately have "P (store_name_cache
      (snd (async_for (k r) tool (self\<lparr>store_name_cache := c\<rparr>) acc)))"
    using Call_list_files.IH by simp
  with call show ?case by (simp add: list_files_def)
qed simp_all

lemma handle_list_files_cache_invariant:
  assumes "\<And>store c. P c \<Longrightarrow> P (snd (tool store c))"
    and "P (store_name_cache self)"
  shows "P (store_name_cache (agent_after (handle_list_files py tool rt self)))"
proof (cases "created rt self")
  case (Inl e)
  with assms(2) show ?thesis
    by (simp add: agent_after_handle_list_files try_body_created)
next
  case (Inr session)
  obtain r self' where loop: "async_for (streamed rt self session) tool self [] = (r, self')"
    by (cases "async_for (streamed rt self session) tool self []")
  from async_for_cache_invariant [of P tool self "streamed rt self session" "[]"] assms loop
  have "P (store_name_cache self')" by simp
  with Inr loop show ?thesis
    by (cases r) (simp_all add: agent_after_handle_list_files try_body_created)
qed

section \<open>The fallback text among the results\<close>

lemma newline_in_join: "CHR 0x0A \<in> set (join [CHR 0x0A] (x # y # ys))"
  by simp

lemma no_newline: "CHR 0x0A \<notin> set no_files_text"
  by (simp add: no_files_text_def)

lemma join_is_no_files_text:
  assumes "xs \<noteq> []"
  shows "join [CHR 0x0A] xs = no_files_text \<longleftrightarrow> xs = [no_files_text]"
proof (cases xs)
  case Nil
  with assms show ?thesis by simp
next
  case (Cons x ys)
  show ?thesis
  proof (cases ys)
    case Nil
    with Cons show ?thesis by auto
  next
    case (Cons y zs)
    have "join [CHR 0x0A] (x # y # zs) \<noteq> no_files_text"
    proof
      assume "join [CHR 0x0A] (x # y # zs) = no_files_text"
      with newline_in_join [of x y zs] have "CHR 0x0A \<in> set no_files_text"
        by (simp only:)
      with no_newline show False ..
    qed
    with \<open>xs = x # ys\<close> Cons show ?thesis by simp
  qed
qed

lemma error_text_not_no_files_text: "error_text @ msg \<noteq> no_files_text"
  by (simp add: error_text_def problem_text_def no_files_text_def)

lemma except_block_not_no_files_text: "fst (except_block py e) \<noteq> Inr no_files_text"
  by (simp add: except_block_returns_iff error_text_not_no_files_text [symmetric])

section \<open>The claims\<close>

text \<open>
  Claim C1, as the specification has it: every execution returns a string, on every path,
  whatever is raised during session creation or streaming. The clause \<^verbatim>\<open>except Exception\<close>
  does not match what is no instance of \<^verbatim>\<open>Exception\<close>: when the task is cancelled while the
  first event is awaited, the iterator raises \<^verbatim>\<open>asyncio.CancelledError\<close>, and the call raises
  it to its caller and returns nothing.
\<close>

theorem cancelled_run_returns_nothing:
  "outcome (handle_list_files plain_python report_tool (playing (Raise (Non_Exception [])))
     docs_agent) = Propagated (Non_Exception [])"
  by (simp add: handle_list_files_def try_body_def playing_def Let_def)

text \<open>
  Claim C1, amended: the call returns a string exactly in these executions: nothing is raised
  during session creation and streaming (the stream ending with or without text), or what is
  raised there is an instance of \<^verbatim>\<open>Exception\<close> and the four steps of the handler, \<^verbatim>\<open>f"{e}"\<close>,
  \<^verbatim>\<open>print\<close>, \<^verbatim>\<open>traceback.print_exc\<close> and \<^verbatim>\<open>str(e)\<close>, complete. Every \<^verbatim>\<open>return\<close> of the source
  returns a \<^verbatim>\<open>str\<close>, so a returned value is never \<^verbatim>\<open>None\<close>. An object raised there that is no
  instance of \<^verbatim>\<open>Exception\<close> is not caught: the call raises it to its caller.
\<close>

theorem returns_string:
  "((\<exists>s. outcome (handle_list_files py tool rt self) = Returned s) \<longleftrightarrow>
      raised_in_run tool rt self = None \<or>
      (\<exists>x shown msg. raised_in_run tool rt self = Some (Exception x) \<and>
         format py (Exception x) = Inr shown \<and>
         print py (''Error in FileManagerAgent: '' @ shown) = None \<and>
         print_exc py (Exception x) = None \<and>
         str py (Exception x) = Inr msg)) \<and>
   (raised_in_run tool rt self = Some (Non_Exception y) \<longrightarrow>
      outcome (handle_list_files py tool rt self) = Propagated (Non_Exception y))"
proof (cases "raised_in_run tool rt self")
  case None
  then show ?thesis by (simp add: outcome_handle_list_files try_body_fst)
next
  case (Some e)
  show ?thesis
  proof (cases e)
    case (Exception x)
    show ?thesis
    proof (cases "fst (except_block py (Exception x))")
      case (Inl e')
      with Some Exception except_block_returns_iff [of py "Exception x"] show ?thesis
        by (auto simp add: outcome_handle_list_files try_body_fst)
    next
      case (Inr s)
      with Some Exception except_block_returns_iff [of py "Exception x" s] show ?thesis
        by (auto simp add: outcome_handle_list_files try_body_fst)
    qed
  next
    case (Non_Exception x)
    with Some show ?thesis by (simp add: outcome_handle_list_files try_body_fst)
  qed
qed

theorem returns_string_witness:
  "(\<exists>s. outcome (handle_list_files plain_python report_tool (playing Stop) docs_agent) =
          Returned s) \<and>
   (\<exists>s. outcome (handle_list_files plain_python report_tool
            (playing (Yield (text_event [''a'']) (Raise (Exception ''boom'')))) docs_agent) =
          Returned s) \<and>
   (\<exists>s. outcome (handle_list_files plain_python report_tool (refusing (Exception ''boom''))
            docs_agent) = Returned s) \<and>
   outcome (handle_list_files plain_python report_tool
     (playing (Yield (text_event [''a'']) (Raise (Non_Exception ''SystemExit'')))) docs_agent) =
     Propagated (Non_Exception ''SystemExit'')"
proof -
  have "raised_in_run report_tool (playing Stop) docs_agent = None"
    by (simp add: raised_in_run_def created_def streamed_def playing_def)
  with returns_string [where py = plain_python and tool = report_tool and rt = "playing Stop"
      and self = docs_agent]
  have 1: "\<exists>s. outcome (handle_list_files plain_python report_tool (playing Stop) docs_agent) =
      Returned s"
    by simp
  have steps: "format plain_python (Exception ''boom'') = Inr ''boom'' \<and>
      print plain_python (''Error in FileManagerAgent: '' @ ''boom'') = None \<and>
      print_exc plain_python (Exception ''boom'') = None \<and>
      str plain_python (Exception ''boom'') = Inr ''boom''"
    by (simp add: plain_python_def)
  have "raised_in_run report_tool
      (playing (Yield (text_event [''a'']) (Raise (Exception ''boom'')))) docs_agent =
      Some (Exception ''boom'')"
    by (simp add: raised_in_run_def created_def streamed_def playing_def)
  with steps returns_string [where py = plain_python and tool = report_tool
      and rt = "playing (Yield (text_event [''a'']) (Raise (Exception ''boom'')))"
      and self = docs_agent]
  have 2: "\<exists>s. outcome (handle_list_files plain_python report_tool
      (playing (Yield (text_event [''a'']) (Raise (Exception ''boom'')))) docs_agent) =
      Returned s"
    by blast
  have "raised_in_run report_tool (refusing (Exception ''boom'')) docs_agent =
      Some (Exception ''boom'')"
    by (simp add: raised_in_run_def created_def refusing_def)
  with steps returns_string [where py = plain_python and tool = report_tool
      and rt = "refusing (Exception ''boom'')" and self = docs_agent]
  have 3: "\<exists>s. outcome (handle_list_files plain_python report_tool
      (refusing (Exception ''boom'')) docs_agent) = Returned s"
    by blast
  have "raised_in_run report_tool
      (playing (Yield (text_event [''a'']) (Raise (Non_Exception ''SystemExit'')))) docs_agent =
      Some (Non_Exception ''SystemExit'')"
    by (simp add: raised_in_run_def created_def streamed_def playing_def)
  with returns_string [where py = plain_python and tool = report_tool
      and rt = "playing (Yield (text_event [''a'']) (Raise (Non_Exception ''SystemExit'')))"
      and self = docs_agent and y = "''SystemExit''"]
  have 4: "outcome (handle_list_files plain_python report_tool
      (playing (Yield (text_event [''a'']) (Raise (Non_Exception ''SystemExit'')))) docs_agent) =
      Propagated (Non_Exception ''SystemExit'')"
    by blast
  from 1 2 3 4 show ?thesis by blast
qed

text \<open>
  Claim C2, as the specification has it: every exception raised during session creation or
  the streaming run is caught, logged and turned into the error string, and never reaches
  the caller. A \<^verbatim>\<open>KeyboardInterrupt\<close> (or a cancellation) raised by the iterator after a first
  event is no instance of \<^verbatim>\<open>Exception\<close>: it reaches the caller, and nothing is printed.
\<close>

theorem interrupt_not_caught:
  "raised_in_run report_tool (playing (Yield (text_event [''a'']) (Raise (Non_Exception []))))
     docs_agent = Some (Non_Exception []) \<and>
   outcome (handle_list_files plain_python report_tool
     (playing (Yield (text_event [''a'']) (Raise (Non_Exception [])))) docs_agent) =
     Propagated (Non_Exception []) \<and>
   printed (handle_list_files plain_python report_tool
     (playing (Yield (text_event [''a'']) (Raise (Non_Exception [])))) docs_agent) = []"
  by (simp add: raised_in_run_def created_def streamed_def handle_list_files_def try_body_def
      playing_def Let_def)

text \<open>
  Claim C2, amended: every instance of \<^verbatim>\<open>Exception\<close> raised during session creation or
  during the streaming run is caught at the one handler. When the four steps of the
  handler complete, the call has printed the line with the formatted exception and the
  stack trace, and returns the twelve characters the specification quotes, the full-width
  colon and \<^verbatim>\<open>str(e)\<close>; the exception does not reach the caller. When one of the steps
  raises (\<^verbatim>\<open>f"{e}"\<close>, then \<^verbatim>\<open>print\<close>, then \<^verbatim>\<open>traceback.print_exc\<close>, then \<^verbatim>\<open>str(e)\<close>), what it
  raises reaches the caller. An object that is no instance of \<^verbatim>\<open>Exception\<close> is not caught:
  it reaches the caller, and nothing is printed.
\<close>

theorem exception_caught:
  "(raised_in_run tool rt self = Some (Exception x) \<and>
    format py (Exception x) = Inr shown \<and>
    print py (''Error in FileManagerAgent: '' @ shown) = None \<and>
    print_exc py (Exception x) = None \<and>
    str py (Exception x) = Inr msg \<longrightarrow>
      outcome (handle_list_files py tool rt self) =
        Returned (problem_text @ [CHR 0xEF, CHR 0xBC, CHR 0x9A] @ msg) \<and>
      printed (handle_list_files py tool rt self) =
        [Print (''Error in FileManagerAgent: '' @ shown), Print_exc (Exception x)]) \<and>
   (raised_in_run tool rt self = Some (Exception x) \<and>
    (format py (Exception x) = Inl e' \<or>
     (\<exists>shown. format py (Exception x) = Inr shown \<and>
        (print py (''Error in FileManagerAgent: '' @ shown) = Some e' \<or>
         print py (''Error in FileManagerAgent: '' @ shown) = None \<and>
         (print_exc py (Exception x) = Some e' \<or>
          print_exc py (Exception x) = None \<and> str py (Exception x) = Inl e')))) \<longrightarrow>
      outcome (handle_list_files py tool rt self) = Propagated e') \<and>
   (raised_in_run tool rt self = Some (Non_Exception y) \<longrightarrow>
      outcome (handle_list_files py tool rt self) = Propagated (Non_Exception y) \<and>
      printed (handle_list_files py tool rt self) = [])"
proof (intro conjI impI)
  assume "raised_in_run tool rt self = Some (Exception x) \<and>
    format py (Exception x) = Inr shown \<and>
    print py (''Error in FileManagerAgent: '' @ shown) = None \<and>
    print_exc py (Exception x) = None \<and>
    str py (Exception x) = Inr msg"
  then have r: "raised_in_run tool rt self = Some (Exception x)"
    and b: "except_block py (Exception x) =
      (Inr (error_text @ msg),
       [Print (''Error in FileManagerAgent: '' @ shown), Print_exc (Exception x)])"
    by (simp_all add: except_block_completes)
  from r b show "outcome (handle_list_files py tool rt self) =
      Returned (problem_text @ [CHR 0xEF, CHR 0xBC, CHR 0x9A] @ msg)"
    by (simp add: outcome_handle_list_files try_body_fst error_text_def)
  from r b show "printed (handle_list_files py tool rt self) =
      [Print (''Error in FileManagerAgent: '' @ shown), Print_exc (Exception x)]"
    by (simp add: printed_handle_list_files try_body_fst)
next
  assume a: "raised_in_run tool rt self = Some (Exception x) \<and>
    (format py (Exception x) = Inl e' \<or>
     (\<exists>shown. format py (Exception x) = Inr shown \<and>
        (print py (''Error in FileManagerAgent: '' @ shown) = Some e' \<or>
         print py (''Error in FileManagerAgent: '' @ shown) = None \<and>
         (print_exc py (Exception x) = Some e' \<or>
          print_exc py (Exception x) = None \<and> str py (Exception x) = Inl e'))))"
  then have "fst (except_block py (Exception x)) = Inl e'"
    by (simp add: except_block_raises_iff)
  with a show "outcome (handle_list_files py tool rt self) = Propagated e'"
    by (simp add: outcome_handle_list_files try_body_fst)
next
  assume "raised_in_run tool rt self = Some (Non_Exception y)"
  then show "outcome (handle_list_files py tool rt self) = Propagated (Non_Exception y)"
    by (simp add: outcome_handle_list_files try_body_fst)
next
  assume "raised_in_run tool rt self = Some (Non_Exception y)"
  then show "printed (handle_list_files py tool rt self) = []"
    by (simp add: printed_handle_list_files try_body_fst)
qed

theorem exception_caught_witness:
  "outcome (handle_list_files plain_python report_tool (refusing (Exception ''no session''))
     docs_agent) =
     Returned (problem_text @ [CHR 0xEF, CHR 0xBC, CHR 0x9A] @ ''no session'') \<and>
   printed (handle_list_files plain_python report_tool (refusing (Exception ''no session''))
     docs_agent) =
     [Print ''Error in FileManagerAgent: no session'', Print_exc (Exception ''no session'')] \<and>
   outcome (handle_list_files broken_str_python report_tool
     (refusing (Exception ''no session'')) docs_agent) = Propagated (Exception ''RuntimeError'') \<and>
   outcome (handle_list_files plain_python report_tool
     (playing (Raise (Non_Exception ''KeyboardInterrupt''))) docs_agent) =
     Propagated (Non_Exception ''KeyboardInterrupt'') \<and>
   printed (handle_list_files plain_python report_tool
     (playing (Raise (Non_Exception ''KeyboardInterrupt''))) docs_agent) = []"
proof -
  have r: "raised_in_run report_tool (refusing (Exception ''no session'')) docs_agent =
      Some (Exception ''no session'')"
    by (simp add: raised_in_run_def created_def refusing_def)
  have "format plain_python (Exception ''no session'') = Inr ''no session'' \<and>
      print plain_python (''Error in FileManagerAgent: '' @ ''no session'') = None \<and>
      print_exc plain_python (Exception ''no session'') = None \<and>
      str plain_python (Exception ''no session'') = Inr ''no session''"
    by (simp add: plain_python_def)
  with r exception_caught [where tool = report_tool
      and rt = "refusing (Exception ''no session'')" and self = docs_agent
      and x = "''no session''" and py = plain_python and shown = "''no session''"
      and msg = "''no session''"]
  have 1: "outcome (handle_list_files plain_python report_tool
      (refusing (Exception ''no session'')) docs_agent) =
      Returned (problem_text @ [CHR 0xEF, CHR 0xBC, CHR 0x9A] @ ''no session'') \<and>
    printed (handle_list_files plain_python report_tool (refusing (Exception ''no session''))
      docs_agent) =
      [Print ''Error in FileManagerAgent: no session'', Print_exc (Exception ''no session'')]"
    by simp
  have "format broken_str_python (Exception ''no session'') = Inl (Exception ''RuntimeError'')"
    by (simp add: broken_str_python_def)
  with r exception_caught [where tool = report_tool
      and rt = "refusing (Exception ''no session'')" and self = docs_agent
      and x = "''no session''" and py = broken_str_python and e' = "Exception ''RuntimeError''"]
  have 2: "outcome (handle_list_files broken_str_python report_tool
      (refusing (Exception ''no session'')) docs_agent) = Propagated (Exception ''RuntimeError'')"
    by blast
  have "raised_in_run report_tool (playing (Raise (Non_Exception ''KeyboardInterrupt'')))
      docs_agent = Some (Non_Exception ''KeyboardInterrupt'')"
    by (simp add: raised_in_run_def created_def streamed_def playing_def)
  with exception_caught [where tool = report_tool
      and rt = "playing (Raise (Non_Exception ''KeyboardInterrupt''))" and self = docs_agent
      and py = plain_python and y = "''KeyboardInterrupt''"]
  have 3: "outcome (handle_list_files plain_python report_tool
      (playing (Raise (Non_Exception ''KeyboardInterrupt''))) docs_agent) =
      Propagated (Non_Exception ''KeyboardInterrupt'') \<and>
    printed (handle_list_files plain_python report_tool
      (playing (Raise (Non_Exception ''KeyboardInterrupt''))) docs_agent) = []"
    by blast
  from 1 2 3 show ?thesis by blast
qed

text \<open>
  Claim C3: when the session is created and the loop over the stream ends without an
  exception, the call returns exactly the fixed text of source line 103 if the accumulator
  \<^verbatim>\<open>response_texts\<close> is empty, and its entries joined with newlines otherwise.
\<close>

theorem fallback_or_joined:
  assumes "created rt self = Inr session"
    and "async_for (streamed rt self session) tool self [] = (Inr response_texts, self')"
  shows "outcome (handle_list_files py tool rt self) =
           Returned (if response_texts = [] then no_files_text
                     else join [CHR 0x0A] response_texts)"
  using assms by (simp add: handle_list_files_def try_body_created)

theorem fallback_or_joined_witness:
  "outcome (handle_list_files plain_python report_tool (playing Stop) docs_agent) = Returned no_files_text \<and>
   outcome (handle_list_files plain_python report_tool
              (playing (Yield (text_event [''one'']) (Yield (text_event [''two'']) Stop)))
              docs_agent) =
     Returned (''one'' @ [CHR 0x0A] @ ''two'')"
proof
  have "created (playing Stop) docs_agent = Inr \<lparr>id' = ''list_files_docs''\<rparr>"
    by (simp add: created_def playing_def docs_agent_def)
  moreover have "async_for (streamed (playing Stop) docs_agent \<lparr>id' = ''list_files_docs''\<rparr>)
      report_tool docs_agent [] = (Inr [], docs_agent)"
    by (simp add: streamed_def playing_def)
  ultimately show "outcome (handle_list_files plain_python report_tool (playing Stop) docs_agent) =
      Returned no_files_text"
    using fallback_or_joined [where rt = "playing Stop" and self = docs_agent
        and tool = report_tool and response_texts = "[]" and py = plain_python]
    by simp
next
  let ?s = "Yield (text_event [''one'']) (Yield (text_event [''two'']) Stop)"
  have "created (playing ?s) docs_agent = Inr \<lparr>id' = ''list_files_docs''\<rparr>"
    by (simp add: created_def playing_def docs_agent_def)
  moreover have "async_for (streamed (playing ?s) docs_agent \<lparr>id' = ''list_files_docs''\<rparr>)
      report_tool docs_agent [] = (Inr [''one'', ''two''], docs_agent)"
    by (simp add: streamed_def playing_def on_event_def text_event_def)
  ultimately show "outcome (handle_list_files plain_python report_tool (playing ?s) docs_agent) =
     Returned (''one'' @ [CHR 0x0A] @ ''two'')"
    using fallback_or_joined [where rt = "playing ?s" and self = docs_agent
        and tool = report_tool and response_texts = "[''one'', ''two'']" and py = plain_python]
    by simp
qed

text \<open>
  Claim C4: for every event sequence the runtime yields before the stream ends, the result
  is the join of the text fragments in the order of the events and, inside an event, of its
  parts. The concrete run of the specification, events with the fragments \<^verbatim>\<open>["a"]\<close> and
  \<^verbatim>\<open>["b","c"]\<close>, gives the five characters \<^verbatim>\<open>a\nb\nc\<close>.
\<close>

theorem fragment_order_preserved:
  assumes "raised_in_run tool rt self = None"
    and "concat (map text_fragments (events_in_run tool rt self)) \<noteq> []"
  shows "outcome (handle_list_files py tool rt self) =
           Returned (join [CHR 0x0A] (concat (map text_fragments (events_in_run tool rt self))))"
  using assms by (simp add: outcome_handle_list_files try_body_fst collected_def)

theorem fragment_order_preserved_witness:
  "outcome (handle_list_files plain_python report_tool
              (playing (Yield (text_event [''a'']) (Yield (text_event [''b'', ''c'']) Stop)))
              docs_agent) =
     Returned [CHR ''a'', CHR 0x0A, CHR ''b'', CHR 0x0A, CHR ''c'']"
proof -
  let ?rt = "playing (Yield (text_event [''a'']) (Yield (text_event [''b'', ''c'']) Stop))"
  have ev: "events_in_run report_tool ?rt docs_agent =
      [text_event [''a''], text_event [''b'', ''c'']]"
    by (simp add: events_in_run_def created_def streamed_def playing_def)
  have "raised_in_run report_tool ?rt docs_agent = None"
    by (simp add: raised_in_run_def created_def streamed_def playing_def)
  moreover have "concat (map text_fragments (events_in_run report_tool ?rt docs_agent)) \<noteq> []"
    unfolding ev by (simp add: text_fragments_def text_event_def)
  ultimately show ?thesis
    using fragment_order_preserved [where tool = report_tool and rt = ?rt and self = docs_agent
        and py = plain_python]
    unfolding ev by (simp add: text_fragments_def text_event_def)
qed

text \<open>
  Claim C5: for every event of the stream, the call appends a part's text to the accumulator
  if and only if the event carries content with one or more parts, the part has a \<^verbatim>\<open>text\<close>
  attribute, and that text is not empty. Handling one event appends its text fragments, in
  order and at the end; a text \<open>t\<close> is among the fragments of an event exactly under that
  condition; the loop over a stream that ends leaves in the accumulator the fragments of all
  events yielded, in order; and the call that ends without an exception returns these texts
  joined, or the fixed text when there are none. So parts without text or with empty text
  add nothing to the result.
\<close>

theorem text_appended_iff:
  "on_event ev response_texts = response_texts @ text_fragments ev \<and>
   (t \<in> set (text_fragments ev) \<longleftrightarrow>
      (\<exists>c ps. content ev = Some c \<and> parts c = Some ps \<and> ps \<noteq> [] \<and>
         Part (Some t) \<in> set ps \<and> t \<noteq> [])) \<and>
   fst (async_for s tool self response_texts) =
     (case raised s tool self of
        None \<Rightarrow> Inr (response_texts @ concat (map text_fragments (yielded s tool self)))
      | Some e \<Rightarrow> Inl e) \<and>
   (raised_in_run tool rt self = None \<longrightarrow>
      outcome (handle_list_files py tool rt self) =
        Returned (if concat (map text_fragments (events_in_run tool rt self)) = []
                  then no_files_text
                  else join [CHR 0x0A]
                         (concat (map text_fragments (events_in_run tool rt self))))) \<and>
   (u \<in> set (concat (map text_fragments (events_in_run tool rt self))) \<longleftrightarrow>
      (\<exists>ev' c ps. ev' \<in> set (events_in_run tool rt self) \<and> content ev' = Some c \<and>
         parts c = Some ps \<and> ps \<noteq> [] \<and> Part (Some u) \<in> set ps \<and> u \<noteq> []))"
proof -
  have mem: "v \<in> set [t. Part (Some t) \<leftarrow> ps, t \<noteq> []] \<longleftrightarrow> Part (Some v) \<in> set ps \<and> v \<noteq> []"
    for ps v
  proof (induction ps)
    case Nil
    show ?case by simp
  next
    case (Cons p ps)
    then show ?case by (cases p) (auto split: option.splits)
  qed
  have frag: "v \<in> set (text_fragments e) \<longleftrightarrow>
      (\<exists>c ps. content e = Some c \<and> parts c = Some ps \<and> ps \<noteq> [] \<and>
         Part (Some v) \<in> set ps \<and> v \<noteq> [])" for e v
    by (cases "content e"; cases "parts (the (content e))")
       (auto simp add: text_fragments_def mem)
  have 1: "on_event ev response_texts = response_texts @ text_fragments ev"
    by (rule on_event_append)
  have 3: "fst (async_for s tool self response_texts) =
     (case raised s tool self of
        None \<Rightarrow> Inr (response_texts @ concat (map text_fragments (yielded s tool self)))
      | Some e \<Rightarrow> Inl e)"
    by (rule async_for_fst)
  have 4: "raised_in_run tool rt self = None \<longrightarrow>
      outcome (handle_list_files py tool rt self) =
        Returned (if concat (map text_fragments (events_in_run tool rt self)) = []
                  then no_files_text
                  else join [CHR 0x0A]
                         (concat (map text_fragments (events_in_run tool rt self))))"
    by (simp add: outcome_handle_list_files try_body_fst collected_def)
  have 5: "u \<in> set (concat (map text_fragments (events_in_run tool rt self))) \<longleftrightarrow>
      (\<exists>ev' c ps. ev' \<in> set (events_in_run tool rt self) \<and> content ev' = Some c \<and>
         parts c = Some ps \<and> ps \<noteq> [] \<and> Part (Some u) \<in> set ps \<and> u \<noteq> [])"
  proof
    assume "u \<in> set (concat (map text_fragments (events_in_run tool rt self)))"
    then obtain ev' where "ev' \<in> set (events_in_run tool rt self)"
      and "u \<in> set (text_fragments ev')"
      by auto
    with frag [of u ev'] show "\<exists>ev' c ps. ev' \<in> set (events_in_run tool rt self) \<and>
        content ev' = Some c \<and> parts c = Some ps \<and> ps \<noteq> [] \<and> Part (Some u) \<in> set ps \<and>
          u \<noteq> []"
      by blast
  next
    assume "\<exists>ev' c ps. ev' \<in> set (events_in_run tool rt self) \<and> content ev' = Some c \<and>
        parts c = Some ps \<and> ps \<noteq> [] \<and> Part (Some u) \<in> set ps \<and> u \<noteq> []"
    then obtain ev' where "ev' \<in> set (events_in_run tool rt self)"
      and "u \<in> set (text_fragments ev')"
      using frag by blast
    then show "u \<in> set (concat (map text_fragments (events_in_run tool rt self)))"
      by auto
  qed
  from 1 frag [of t ev] 3 4 5 show ?thesis by (intro conjI)
qed

theorem text_appended_iff_witness:
  "on_event
     \<lparr>content = Some \<lparr>role = Some ''model'',
        parts = Some [Part (Some ''a''), Part None, Part (Some []), No_text_attribute,
                      Part (Some ''b'')]\<rparr>\<rparr> [''x''] = [''x'', ''a'', ''b''] \<and>
   on_event \<lparr>content = None\<rparr> [''x''] = [''x''] \<and>
   on_event \<lparr>content = Some \<lparr>role = None, parts = None\<rparr>\<rparr> [''x''] = [''x''] \<and>
   on_event \<lparr>content = Some \<lparr>role = None, parts = Some []\<rparr>\<rparr> [''x''] = [''x''] \<and>
   outcome (handle_list_files plain_python report_tool
     (playing
        (Yield \<lparr>content = Some \<lparr>role = Some ''model'',
                  parts = Some [Part (Some ''a''), Part None, Part (Some []),
                                No_text_attribute, Part (Some ''b'')]\<rparr>\<rparr>
           (Yield \<lparr>content = None\<rparr> Stop))) docs_agent) =
     Returned [CHR ''a'', CHR 0x0A, CHR ''b'']"
proof -
  let ?ev = "\<lparr>content = Some \<lparr>role = Some ''model'',
        parts = Some [Part (Some ''a''), Part None, Part (Some []), No_text_attribute,
                      Part (Some ''b'')]\<rparr>\<rparr>"
  let ?rt = "playing (Yield ?ev (Yield \<lparr>content = None\<rparr> Stop))"
  have ev: "events_in_run report_tool ?rt docs_agent = [?ev, \<lparr>content = None\<rparr>]"
    by (simp add: events_in_run_def created_def streamed_def playing_def)
  have r: "raised_in_run report_tool ?rt docs_agent = None"
    by (simp add: raised_in_run_def created_def streamed_def playing_def)
  have f1: "text_fragments ?ev = [''a'', ''b'']"
    by (simp add: text_fragments_def)
  have f2: "text_fragments \<lparr>content = None\<rparr> = []"
    by (simp add: text_fragments_def)
  from text_appended_iff [where tool = report_tool and self = docs_agent and rt = ?rt
      and py = plain_python] r
  have "outcome (handle_list_files plain_python report_tool ?rt docs_agent) =
      Returned [CHR ''a'', CHR 0x0A, CHR ''b'']"
    unfolding ev by (simp add: f1 f2)
  moreover from text_appended_iff [where ev = ?ev and response_texts = "[''x'']"]
  have "on_event ?ev [''x''] = [''x'', ''a'', ''b'']"
    by (simp add: f1)
  moreover have "on_event \<lparr>content = None\<rparr> [''x''] = [''x'']"
    by (simp add: on_event_def)
  moreover have "on_event \<lparr>content = Some \<lparr>role = None, parts = None\<rparr>\<rparr> [''x''] = [''x'']"
    by (simp add: on_event_def)
  moreover have "on_event \<lparr>content = Some \<lparr>role = None, parts = Some []\<rparr>\<rparr> [''x''] = [''x'']"
    by (simp add: on_event_def)
  ultimately show ?thesis by (intro conjI)
qed




text \<open>
  Claim C7: a call leaves the cache bound at construction as it found it. The source of
  \<^verbatim>\<open>handle_list_files\<close> has no statement that touches \<^verbatim>\<open>self.store_name_cache\<close>; the
  dictionary reaches the tool alone, and with a tool of the specification's contract, which
  reads it, the cache after the call has exactly the entries it had before.
\<close>

theorem cache_not_mutated:
  "store_name_cache (agent_after (handle_list_files py (spec_tool f) rt self)) =
     store_name_cache self"
  by (simp add: agent_after_handle_list_files try_body_agent_spec_tool)

theorem cache_not_mutated_witness:
  "store_name_cache
     (agent_after (handle_list_files plain_python report_tool (playing silent_after_tool) docs_agent)) =
     [''docs'' \<mapsto> ''store_123'']"
  using cache_not_mutated
    [where f = "\<lambda>store c. Inr [\<lparr>name = ''report.pdf'', uploaded_at = ''2024-01-01''\<rparr>]"
      and rt = "playing silent_after_tool" and self = docs_agent and py = plain_python]
  by (simp add: report_tool_def docs_agent_def)

text \<open>
  Claim C8: the identifiers a call constructs are determined by the store name alone. The
  first request of every call is \<^verbatim>\<open>create_session\<close> with the application name, the user
  identifier \<^verbatim>\<open>"user_" + store_name\<close> and the session identifier
  \<^verbatim>\<open>"list_files_" + store_name\<close>, so two calls with equal store names, on any instances,
  tools and runtimes, construct the same ones. The request \<^verbatim>\<open>run_async\<close>, when it is made,
  carries the same user identifier and the \<^verbatim>\<open>id\<close> of the session the runtime returned.
\<close>

theorem identifiers_from_store_name:
  assumes "store_name self = store_name self'"
  shows "requests (handle_list_files py tool rt self) =
           Create_session ''file_manager'' (''user_'' @ store_name self)
             (''list_files_'' @ store_name self) #
           (case created rt self of
              Inl e \<Rightarrow> []
            | Inr session \<Rightarrow>
                [Run_async (''user_'' @ store_name self) (id' session) new_message]) \<and>
         hd (requests (handle_list_files py' tool' rt' self')) =
           hd (requests (handle_list_files py tool rt self))"
  using assms by (simp add: requests_handle_list_files try_body_snd APP_NAME_def)

theorem identifiers_from_store_name_witness:
  "hd (requests (handle_list_files plain_python (\<lambda>store c. (Inl (Exception ''offline''), Map.empty))
         (refusing (Exception ''no session''))
         \<lparr>store_name = ''docs'', store_name_cache = Map.empty\<rparr>)) =
     Create_session ''file_manager'' ''user_docs'' ''list_files_docs'' \<and>
   requests (handle_list_files plain_python report_tool (playing Stop) docs_agent) =
     [Create_session ''file_manager'' ''user_docs'' ''list_files_docs'',
      Run_async ''user_docs'' ''list_files_docs'' new_message]"
proof -
  have "store_name docs_agent = store_name \<lparr>store_name = ''docs'', store_name_cache = Map.empty\<rparr>"
    by (simp add: docs_agent_def)
  from identifiers_from_store_name [OF this, where tool = report_tool and rt = "playing Stop"
      and tool' = "\<lambda>store c. (Inl (Exception ''offline''), Map.empty)"
      and rt' = "refusing (Exception ''no session'')" and py = plain_python
      and py' = plain_python]
  show ?thesis
    by (simp add: created_def playing_def docs_agent_def)
qed

text \<open>
  Claim C9, as the specification has it: whenever the tool returns at least one file record,
  the call returns a string other than the fixed text of source line 103. The records never
  reach \<^verbatim>\<open>handle_list_files\<close>; it sees the events only. In the scenario of the specification
  the tool returns the record \<^verbatim>\<open>report.pdf\<close>, the model calls it and then produces no text,
  and the call returns the fixed text.
\<close>

theorem records_without_text_fallback:
  "list_files report_tool docs_agent =
     (Inr [\<lparr>name = ''report.pdf'', uploaded_at = ''2024-01-01''\<rparr>], docs_agent) \<and>
   outcome (handle_list_files plain_python report_tool (playing silent_after_tool) docs_agent) =
     Returned no_files_text"
  by (simp add: handle_list_files_def try_body_def playing_def silent_after_tool_def Let_def
      list_files_def report_tool_def spec_tool_def docs_agent_def on_event_def)

text \<open>
  Claim C9, amended: whatever the tool returns, the call returns the fixed text of source
  line 103 exactly when the stream ends without an exception and the collected texts are
  none, or the one fragment that is this text itself. So a call returns a string other than
  it whenever the runtime yields some other non-empty text before the stream ends.
\<close>

theorem fallback_iff:
  "outcome (handle_list_files py tool rt self) = Returned no_files_text \<longleftrightarrow>
     raised_in_run tool rt self = None \<and>
     (collected tool rt self = [] \<or> collected tool rt self = [no_files_text])"
proof (cases "raised_in_run tool rt self")
  case None
  then show ?thesis
    by (simp add: outcome_handle_list_files try_body_fst join_is_no_files_text)
next
  case (Some e)
  show ?thesis
  proof (cases e)
    case (Exception x)
    with Some except_block_not_no_files_text [of py "Exception x"] show ?thesis
      by (auto simp add: outcome_handle_list_files try_body_fst split: sum.splits)
  next
    case (Non_Exception x)
    with Some show ?thesis
      by (simp add: outcome_handle_list_files try_body_fst)
  qed
qed

theorem fallback_iff_witness:
  "outcome (handle_list_files plain_python report_tool
     (playing (Call_list_files (\<lambda>r. Yield (text_event [''report.pdf'']) Stop))) docs_agent) \<noteq>
     Returned no_files_text"
proof -
  let ?rt = "playing (Call_list_files (\<lambda>r. Yield (text_event [''report.pdf'']) Stop))"
  have "collected report_tool ?rt docs_agent = [''report.pdf'']"
    by (simp add: collected_def events_in_run_def created_def streamed_def playing_def
        list_files_def report_tool_def spec_tool_def text_fragments_def text_event_def)
  moreover have "[''report.pdf''] \<noteq> [no_files_text]"
    by (simp add: no_files_text_def)
  ultimately show ?thesis
    using fallback_iff [where tool = report_tool and rt = ?rt and self = docs_agent
        and py = plain_python]
    by simp
qed

text \<open>
  Claim C10: on the path without an exception the result is a function of the event
  sequence alone. Two runs in which the session is created, the stream ends without raising
  and the same events are yielded return the same string, whatever the store names, the
  caches, the tools and the runtimes of the two are.
\<close>

theorem same_events_same_result:
  assumes "raised_in_run tool rt self = None"
    and "raised_in_run tool' rt' self' = None"
    and "events_in_run tool rt self = events_in_run tool' rt' self'"
  shows "outcome (handle_list_files py tool rt self) = outcome (handle_list_files py' tool' rt' self')"
  using assms by (simp add: outcome_handle_list_files try_body_fst collected_def)

theorem same_events_same_result_witness:
  "outcome (handle_list_files plain_python report_tool
     (playing (Call_list_files (\<lambda>r. Yield (text_event [''hello'']) Stop))) docs_agent) =
   outcome (handle_list_files plain_python (\<lambda>store c. (Inr [], c(store \<mapsto> ''store_9'')))
     (playing (Yield (text_event [''hello'']) Stop))
     \<lparr>store_name = ''photos'', store_name_cache = Map.empty\<rparr>)"
proof -
  let ?rt = "playing (Call_list_files (\<lambda>r. Yield (text_event [''hello'']) Stop))"
  let ?tool' = "\<lambda>store (c :: cache). (Inr [] :: tool_result, c(store \<mapsto> ''store_9''))"
  let ?rt' = "playing (Yield (text_event [''hello'']) Stop)"
  let ?self' = "\<lparr>store_name = ''photos'', store_name_cache = Map.empty\<rparr>"
  have "raised_in_run report_tool ?rt docs_agent = None"
    by (simp add: raised_in_run_def created_def streamed_def playing_def list_files_def
        report_tool_def spec_tool_def)
  moreover have "raised_in_run ?tool' ?rt' ?self' = None"
    by (simp add: raised_in_run_def created_def streamed_def playing_def)
  moreover have "events_in_run report_tool ?rt docs_agent = events_in_run ?tool' ?rt' ?self'"
    by (simp add: events_in_run_def created_def streamed_def playing_def list_files_def
        report_tool_def spec_tool_def)
  ultimately show ?thesis
    by (rule same_events_same_result)
qed

end
